theory Spec2Isabelle
  imports Main "HOL-Library.Sublist"
begin

section \<open>Data model\<close>

text \<open>
  JSON values as the handlers build and receive them. \<open>JUndefined\<close> is the
  JavaScript value \<open>undefined\<close>, which an object property may hold before the
  object is serialised. Payload numbers are never inspected by the handlers.
\<close>

datatype json =
    JUndefined
  | JNull
  | JBool bool
  | JNum int
  | JStr string
  | JArr "json list"
  | JObj "(string \<times> json) list"

type_synonym json_record = "(string \<times> json) list"

text \<open>
  \<open>ExaResearchResponse\<close> of \<open>types.ts\<close>. Optional fields are options. The
  status is kept as the string the provider sent: the TypeScript union is not checked at
  run time, and the handlers only compare it with \<open>'completed'\<close> and \<open>'failed'\<close>.
\<close>

record research_result =
  report :: "string option"
  data :: "json_record option"

record ExaResearchResponse =
  requestId :: string
  taskId :: "string option"
  status :: "string option"
  result :: "research_result option"
  error :: "string option"

text \<open>The arguments of \<open>deep_research_exa\<close> that the handler's control flow reads.\<close>

record research_args =
  query :: string
  outputSchema :: "json_record option"
  llmGenerateSchema :: "bool option"

text \<open>
  What a handler may catch: an axios error (transport failure or non-2xx reply), or a
  plain \<open>Error\<close> with its message (a \<open>TypeError\<close> is one).
\<close>

record axios_response =
  http_status :: nat
  data_message :: "string option"

record axios_error =
  response :: "axios_response option"
  message :: string

datatype thrown = AxiosError axios_error | Error string

text \<open>
  The text of a tool result is either a template string or
  \<open>JSON.stringify(doc, null, 2)\<close> of a document; the call is kept as a constructor
  so that the document that is serialised can be inspected.
\<close>

datatype rendered = Plain string | JSON_stringify json

record tool_result =
  content_text :: rendered
  isError :: bool

text \<open>
  \<open>JSON.stringify\<close> leaves out every property of an object whose value is
  \<open>undefined\<close>; these are the members that reach the emitted document.
\<close>

fun emitted_members :: "json \<Rightarrow> json_record" where
  "emitted_members (JObj ms) = filter (\<lambda>(k, v). v \<noteq> JUndefined) ms"
| "emitted_members _ = []"

fun emitted_doc :: "rendered \<Rightarrow> json_record" where
  "emitted_doc (JSON_stringify d) = emitted_members d"
| "emitted_doc (Plain _) = []"

section \<open>JavaScript helpers\<close>

text \<open>Truthiness of an optional string: \<open>undefined\<close> and \<open>""\<close> are falsy.\<close>

fun truthy_str :: "string option \<Rightarrow> bool" where
  "truthy_str None = False"
| "truthy_str (Some s) = (s \<noteq> [])"

text \<open>\<open>a || b\<close> on an optional string and a default.\<close>

fun str_or :: "string option \<Rightarrow> string \<Rightarrow> string" where
  "str_or None d = d"
| "str_or (Some s) d = (if s = [] then d else s)"

fun opt_json_str :: "string option \<Rightarrow> json" where
  "opt_json_str None = JUndefined"
| "opt_json_str (Some s) = JStr s"

definition digit_char :: "nat \<Rightarrow> char" where
  "digit_char d = char_of (48 + d)"

function show_nat :: "nat \<Rightarrow> string" where
  "show_nat n = (if n < 10 then [digit_char n] else show_nat (n div 10) @ [digit_char (n mod 10)])"
  by pat_completeness auto
termination
  by (relation "measure id") auto

declare show_nat.simps [simp del]

section \<open>Configuration (config.ts)\<close>

definition RESEARCH :: string where
  "RESEARCH = ''/research/v0/tasks''"

text \<open>
  The replacement string of \<open>String.prototype.replace\<close> with a string pattern:
  \<open>$$\<close> stands for a dollar sign, \<open>$&\<close> for the matched text, \<open>$`\<close> for the
  text before the match and \<open>$'\<close> for the text after it; any other character,
  also a dollar sign before anything else, stands for itself.
\<close>

fun replacement :: "string \<Rightarrow> string \<Rightarrow> string \<Rightarrow> string \<Rightarrow> string" where
  "replacement pre m post [] = []"
| "replacement pre m post [c] = [c]"
| "replacement pre m post (c # d # cs) =
     (if c = CHR ''$'' then
        (if d = CHR ''$'' then CHR ''$'' # replacement pre m post cs
         else if d = CHR ''&'' then m @ replacement pre m post cs
         else if d = CHR 0x60 then pre @ replacement pre m post cs
         else if d = CHR 0x27 then post @ replacement pre m post cs
         else c # replacement pre m post (d # cs))
      else c # replacement pre m post (d # cs))"

text \<open>
  \<open>RESEARCH_STATUS.replace(':taskId', taskId)\<close> on the template
  \<open>'/research/v0/tasks/:taskId'\<close>: the placeholder is the tail of the template, and
  the task identifier is the replacement string.
\<close>

definition statusUrl :: "string \<Rightarrow> string" where
  "statusUrl tid =
     ''/research/v0/tasks/'' @ replacement ''/research/v0/tasks/'' '':taskId'' [] tid"

definition maxPollingTime :: nat where
  "maxPollingTime = 120000"

definition pollingInterval :: nat where
  "pollingInterval = 3000"

section \<open>The deep_research_exa handler (tools/research.ts)\<close>

subsection \<open>Submission\<close>

text \<open>
  The check after the POST: a missing body, a missing \<open>taskId\<close> and an empty
  \<open>taskId\<close> all throw.
\<close>

definition submit :: "ExaResearchResponse option \<Rightarrow> thrown + string" where
  "submit body =
     (case body of
        None \<Rightarrow> Inl (Error ''Failed to start research task - no task ID received'')
      | Some d \<Rightarrow>
          (if \<not> truthy_str (taskId d)
           then Inl (Error ''Failed to start research task - no task ID received'')
           else Inr (the (taskId d))))"

subsection \<open>One status check of the poll loop\<close>

datatype step = Return tool_result | Throw thrown | Continue

definition schemaUsed :: "research_args \<Rightarrow> json" where
  "schemaUsed a =
     (if outputSchema a \<noteq> None then JBool True
      else (case llmGenerateSchema a of None \<Rightarrow> JUndefined | Some b \<Rightarrow> JBool b))"

definition report_text :: "string \<Rightarrow> string \<Rightarrow> string \<Rightarrow> string" where
  "report_text q r tid =
     ''# Research Report: '' @ q @ ''\<newline>\<newline>'' @ r @ ''\<newline>\<newline>---\<newline>*Research ID: '' @ tid @ ''*''"

definition formattedResults :: "research_args \<Rightarrow> string \<Rightarrow> ExaResearchResponse \<Rightarrow> json_record \<Rightarrow> json" where
  "formattedResults a tid d payload =
     JObj [(''requestId'', JStr (requestId d)),
           (''taskId'', JStr tid),
           (''researchTopic'', JStr (query a)),
           (''status'', JStr ''completed''),
           (''structuredData'', JObj payload),
           (''schemaUsed'', schemaUsed a)]"

definition poll_check :: "research_args \<Rightarrow> string \<Rightarrow> ExaResearchResponse \<Rightarrow> step" where
  "poll_check a tid d =
     (if status d = Some ''completed'' then
        (case result d of
           None \<Rightarrow> Throw (Error ''Research completed but no results returned'')
         | Some res \<Rightarrow>
             (if truthy_str (report res) then
                Return \<lparr>content_text = Plain (report_text (query a) (the (report res)) tid),
                        isError = False\<rparr>
              else (case data res of
                      Some payload \<Rightarrow>
                        Return \<lparr>content_text = JSON_stringify (formattedResults a tid d payload),
                                isError = False\<rparr>
                    | None \<Rightarrow>
                        Throw (Error ''Research completed but results are in unexpected format''))))
      else if status d = Some ''failed'' then
        Throw (Error (str_or (error d) ''Research task failed''))
      else Continue)"

subsection \<open>The poll loop\<close>

text \<open>
  The provider and the clock, seen from the loop: round \<open>i\<close> sleeps for
  \<open>pollingInterval\<close>, then issues the status read, which takes \<open>latency\<close>
  further milliseconds and either fails in axios or yields a body: a response record,
  or the JSON value \<open>null\<close> (\<open>None\<close>), on which reading \<open>.status\<close> is a
  \<open>TypeError\<close>.
  The wall clock is taken not to run backwards, so a round adds at least
  \<open>pollingInterval\<close> to \<open>Date.now() - startTime\<close>. Logging is left out.
\<close>

record poll_event =
  latency :: nat
  reply :: "axios_error + ExaResearchResponse option"

datatype action = Post string | Sleep nat | Get string

datatype loop_exit = Returned tool_result | Raised thrown | Expired

definition read_status :: "research_args \<Rightarrow> string \<Rightarrow> poll_event \<Rightarrow> step" where
  "read_status a tid ev =
     (case reply ev of
        Inl e \<Rightarrow> Throw (AxiosError e)
      | Inr None \<Rightarrow> Throw (Error ''Cannot read properties of null (reading 'status')'')
      | Inr (Some d) \<Rightarrow> poll_check a tid d)"

text \<open>
  \<open>poll a tid w i t\<close> is the \<open>while\<close> loop entered for round \<open>i\<close> with
  \<open>Date.now() - startTime = t\<close>. It returns how the loop was left and the sleeps
  and status reads it performed, in order.
\<close>

function poll :: "research_args \<Rightarrow> string \<Rightarrow> (nat \<Rightarrow> poll_event) \<Rightarrow> nat \<Rightarrow> nat \<Rightarrow> loop_exit \<times> action list" where
  "poll a tid w i t =
     (if t < maxPollingTime then
        (case read_status a tid (w i) of
           Return r \<Rightarrow> (Returned r, [Sleep pollingInterval, Get (statusUrl tid)])
         | Throw e \<Rightarrow> (Raised e, [Sleep pollingInterval, Get (statusUrl tid)])
         | Continue \<Rightarrow>
             (case poll a tid w (Suc i) (t + pollingInterval + latency (w i)) of
                (x, tr) \<Rightarrow> (x, Sleep pollingInterval # Get (statusUrl tid) # tr)))
      else (Expired, []))"
  by pat_completeness auto
termination
  by (relation "measure (\<lambda>(a, tid, w, i, t). maxPollingTime - t)")
     (auto simp: pollingInterval_def maxPollingTime_def)

declare poll.simps [simp del]

subsection \<open>The catch block and the whole handler\<close>

definition research_catch :: "thrown \<Rightarrow> tool_result" where
  "research_catch e =
     (case e of
        AxiosError ae \<Rightarrow>
          (let statusCode =
                 (case response ae of
                    None \<Rightarrow> ''unknown''
                  | Some r \<Rightarrow> (if http_status r = 0 then ''unknown'' else show_nat (http_status r)));
               errorMessage =
                 (case response ae of
                    None \<Rightarrow> message ae
                  | Some r \<Rightarrow> str_or (data_message r) (message ae))
           in \<lparr>content_text = Plain (''Research error ('' @ statusCode @ ''): '' @ errorMessage),
               isError = True\<rparr>)
      | Error m \<Rightarrow> \<lparr>content_text = Plain (''Research error: '' @ m), isError = True\<rparr>)"

definition timeout_text :: "string \<Rightarrow> string" where
  "timeout_text tid =
     ''Research task is still processing. Task ID: '' @ tid @
     ''\<newline>\<newline>The research is taking longer than expected. You can check the status later using the task ID.''"

record provider =
  post_reply :: "axios_error + ExaResearchResponse option"
  polls :: "nat \<Rightarrow> poll_event"

definition deep_research_exa :: "research_args \<Rightarrow> provider \<Rightarrow> tool_result \<times> action list" where
  "deep_research_exa a p =
     (case post_reply p of
        Inl e \<Rightarrow> (research_catch (AxiosError e), [Post RESEARCH])
      | Inr body \<Rightarrow>
          (case submit body of
             Inl e \<Rightarrow> (research_catch e, [Post RESEARCH])
           | Inr tid \<Rightarrow>
               (case poll a tid (polls p) 0 0 of
                  (Returned r, tr) \<Rightarrow> (r, Post RESEARCH # tr)
                | (Raised e, tr) \<Rightarrow> (research_catch e, Post RESEARCH # tr)
                | (Expired, tr) \<Rightarrow>
                    (\<lparr>content_text = Plain (timeout_text tid), isError = False\<rparr>,
                     Post RESEARCH # tr))))"

section \<open>The check_research_status_exa handler (tools/research.ts)\<close>

definition status_catch :: "thrown \<Rightarrow> tool_result" where
  "status_catch e =
     (case e of
        AxiosError ae \<Rightarrow>
          (let statusCode =
                 (case response ae of
                    None \<Rightarrow> ''unknown''
                  | Some r \<Rightarrow> (if http_status r = 0 then ''unknown'' else show_nat (http_status r)));
               errorMessage =
                 (case response ae of
                    None \<Rightarrow> message ae
                  | Some r \<Rightarrow> str_or (data_message r) (message ae))
           in \<lparr>content_text = Plain (''Status check error ('' @ statusCode @ ''): '' @ errorMessage),
               isError = True\<rparr>)
      | Error m \<Rightarrow> \<lparr>content_text = Plain (''Status check error: '' @ m), isError = True\<rparr>)"

definition status_document :: "string \<Rightarrow> ExaResearchResponse \<Rightarrow> tool_result" where
  "status_document tid d =
     \<lparr>content_text = JSON_stringify (JObj [(''taskId'', JStr tid),
                                          (''status'', opt_json_str (status d)),
                                          (''error'', opt_json_str (error d))]),
      isError = False\<rparr>"

definition check_report_text :: "string \<Rightarrow> string \<Rightarrow> string" where
  "check_report_text tid r = ''# Research Report (Task: '' @ tid @ '')\<newline>\<newline>'' @ r"

definition check_data_document :: "string \<Rightarrow> json_record \<Rightarrow> json" where
  "check_data_document tid payload =
     JObj [(''taskId'', JStr tid), (''status'', JStr ''completed''), (''data'', JObj payload)]"

definition check_decode :: "string \<Rightarrow> ExaResearchResponse \<Rightarrow> tool_result" where
  "check_decode tid d =
     (if status d = Some ''completed'' \<and> result d \<noteq> None then
        (let res = the (result d) in
         if truthy_str (report res) then
           \<lparr>content_text = Plain (check_report_text tid (the (report res))), isError = False\<rparr>
         else (case data res of
                 Some payload \<Rightarrow>
                   \<lparr>content_text = JSON_stringify (check_data_document tid payload),
                    isError = False\<rparr>
               | None \<Rightarrow> status_document tid d))
      else status_document tid d)"

definition check_research_status_exa :: "string \<Rightarrow> (axios_error + ExaResearchResponse option) \<Rightarrow> tool_result" where
  "check_research_status_exa tid rep =
     (case rep of
        Inl e \<Rightarrow> status_catch (AxiosError e)
      | Inr None \<Rightarrow> status_catch (Error ''Cannot read properties of null (reading 'status')'')
      | Inr (Some d) \<Rightarrow> check_decode tid d)"

section \<open>Tool registration (the server entry points)\<close>

text \<open>
  The configuration object, the tool registry (tool identifier and \<open>enabled\<close>
  flag of each entry; names and descriptions play no part in registration) and
  \<open>shouldRegisterTool\<close>, which is the same closure in both entry points, over the
  registry and the enabled-tools list in force.
\<close>

record server_config =
  exaApiKey :: "string option"
  enabledTools :: "string list option"
  debug :: bool

type_synonym tool_registry = "(string \<times> bool) list"

definition availableTools :: tool_registry where
  "availableTools =
    [(''web_search_exa'', True), (''get_contents_exa'', True), (''find_similar_exa'', True),
     (''answer_with_citations_exa'', True), (''deep_research_exa'', True),
     (''check_research_status_exa'', True), (''research_paper_search_exa'', True),
     (''company_research_exa'', True), (''crawling_exa'', True),
     (''competitor_finder_exa'', True), (''linkedin_search_exa'', True),
     (''wikipedia_search_exa'', True), (''github_search_exa'', True),
     (''create_webset_exa'', True), (''list_websets_exa'', True), (''get_webset_exa'', True),
     (''update_webset_exa'', True), (''delete_webset_exa'', True), (''cancel_webset_exa'', True),
     (''create_webset_search_exa'', True), (''get_webset_search_exa'', True),
     (''list_webset_searches_exa'', True), (''cancel_webset_search_exa'', True),
     (''create_webset_enrichment_exa'', True), (''get_webset_enrichment_exa'', True),
     (''list_webset_enrichments_exa'', True), (''delete_webset_enrichment_exa'', True),
     (''cancel_webset_enrichment_exa'', True),
     (''list_webset_items_exa'', True), (''get_webset_item_exa'', True),
     (''delete_webset_item_exa'', True), (''search_webset_items_exa'', True),
     (''create_import_exa'', True), (''get_import_exa'', True),
     (''create_webset_monitor_exa'', True), (''update_webset_monitor_exa'', True),
     (''create_webhook_exa'', True), (''list_webhook_attempts_exa'', True),
     (''list_events_exa'', True), (''get_event_exa'', True)]"

definition shouldRegisterTool :: "tool_registry \<Rightarrow> string list option \<Rightarrow> string \<Rightarrow> bool" where
  "shouldRegisterTool registry enabled toolId =
     (if enabled \<noteq> None \<and> length (the enabled) > 0 then toolId \<in> set (the enabled)
      else (case map_of registry toolId of Some e \<Rightarrow> e | None \<Rightarrow> False))"

text \<open>
  The tools registered one by one, in source order, and the groups registered together
  when any of their members is wanted. \<open>registeredTools\<close> is the list the entry
  point pushes to.
\<close>

definition searchTools :: "string list" where
  "searchTools = [''web_search_exa'', ''get_contents_exa'', ''find_similar_exa'',
     ''answer_with_citations_exa'']"

definition researchTools :: "string list" where
  "researchTools = [''deep_research_exa'', ''check_research_status_exa'']"

definition moreSearchTools :: "string list" where
  "moreSearchTools = [''research_paper_search_exa'', ''company_research_exa'', ''crawling_exa'',
     ''competitor_finder_exa'', ''linkedin_search_exa'', ''wikipedia_search_exa'',
     ''github_search_exa'']"

definition websetTools :: "string list" where
  "websetTools = [''create_webset_exa'', ''list_websets_exa'', ''get_webset_exa'',
     ''update_webset_exa'', ''delete_webset_exa'', ''cancel_webset_exa'']"

definition websetSearchTools :: "string list" where
  "websetSearchTools = [''create_webset_search_exa'', ''get_webset_search_exa'',
     ''list_webset_searches_exa'', ''cancel_webset_search_exa'']"

definition websetEnrichmentTools :: "string list" where
  "websetEnrichmentTools = [''create_webset_enrichment_exa'', ''get_webset_enrichment_exa'',
     ''list_webset_enrichments_exa'', ''delete_webset_enrichment_exa'',
     ''cancel_webset_enrichment_exa'']"

definition websetItemTools :: "string list" where
  "websetItemTools = [''list_webset_items_exa'', ''get_webset_item_exa'',
     ''delete_webset_item_exa'', ''search_webset_items_exa'']"

definition websetOperationTools :: "string list" where
  "websetOperationTools = [''create_import_exa'', ''get_import_exa'',
     ''create_webset_monitor_exa'', ''update_webset_monitor_exa'',
     ''create_webhook_exa'', ''list_webhook_attempts_exa'',
     ''list_events_exa'', ''get_event_exa'']"

definition register_group :: "(string \<Rightarrow> bool) \<Rightarrow> string list \<Rightarrow> string list" where
  "register_group should tools = (if list_ex should tools then filter should tools else [])"

definition registeredTools :: "server_config \<Rightarrow> string list" where
  "registeredTools config =
     (let should = shouldRegisterTool availableTools (enabledTools config) in
      filter should searchTools @ register_group should researchTools
      @ filter should moreSearchTools
      @ register_group should websetTools @ register_group should websetSearchTools
      @ register_group should websetEnrichmentTools @ register_group should websetItemTools
      @ register_group should websetOperationTools)"


subsection \<open>The websets-only server\<close>

text \<open>
  Its registry and its tool lists; its enrichment list orders the same five tools
  differently from the list of the other entry point.
\<close>

definition websets_availableTools :: tool_registry where
  "websets_availableTools =
    [(''create_webset_exa'', True), (''list_websets_exa'', True), (''get_webset_exa'', True),
     (''update_webset_exa'', True), (''delete_webset_exa'', True), (''cancel_webset_exa'', True),
     (''create_webset_search_exa'', True), (''get_webset_search_exa'', True),
     (''list_webset_searches_exa'', True), (''cancel_webset_search_exa'', True),
     (''create_webset_enrichment_exa'', True), (''get_webset_enrichment_exa'', True),
     (''list_webset_enrichments_exa'', True), (''delete_webset_enrichment_exa'', True),
     (''cancel_webset_enrichment_exa'', True),
     (''list_webset_items_exa'', True), (''get_webset_item_exa'', True),
     (''delete_webset_item_exa'', True), (''search_webset_items_exa'', True),
     (''create_import_exa'', True), (''get_import_exa'', True), (''list_imports_exa'', True),
     (''update_import_exa'', True), (''delete_import_exa'', True),
     (''create_webset_monitor_exa'', True), (''get_webset_monitor_exa'', True),
     (''list_webset_monitors_exa'', True), (''update_webset_monitor_exa'', True),
     (''delete_webset_monitor_exa'', True), (''list_monitor_runs_exa'', True),
     (''get_monitor_run_exa'', True),
     (''create_webhook_exa'', True), (''get_webhook_exa'', True), (''list_webhooks_exa'', True),
     (''update_webhook_exa'', True), (''delete_webhook_exa'', True),
     (''list_webhook_attempts_exa'', True),
     (''list_events_exa'', True), (''get_event_exa'', True),
     (''create_export_exa'', True), (''get_export_exa'', True), (''list_exports_exa'', True),
     (''delete_export_exa'', True),
     (''update_webset_item_exa'', True), (''batch_update_items_exa'', True),
     (''batch_delete_items_exa'', True), (''batch_verify_items_exa'', True)]"

definition websetCoreTools :: "string list" where
  "websetCoreTools = [''create_webset_exa'', ''list_webset_items_exa'', ''get_webset_item_exa'',
     ''list_websets_exa'', ''get_webset_exa'', ''search_webset_items_exa'']"

definition websets_websetEnrichmentTools :: "string list" where
  "websets_websetEnrichmentTools = [''create_webset_enrichment_exa'',
     ''list_webset_enrichments_exa'', ''get_webset_enrichment_exa'',
     ''delete_webset_enrichment_exa'', ''cancel_webset_enrichment_exa'']"

definition websetAutomationTools :: "string list" where
  "websetAutomationTools = [''create_import_exa'', ''get_import_exa'', ''list_imports_exa'',
     ''update_import_exa'', ''delete_import_exa'', ''create_webset_monitor_exa'',
     ''get_webset_monitor_exa'', ''list_webset_monitors_exa'', ''update_webset_monitor_exa'',
     ''delete_webset_monitor_exa'', ''list_monitor_runs_exa'', ''get_monitor_run_exa'',
     ''create_webhook_exa'', ''get_webhook_exa'', ''list_webhooks_exa'', ''update_webhook_exa'',
     ''delete_webhook_exa'', ''list_webhook_attempts_exa'']"

definition websetExportTools :: "string list" where
  "websetExportTools = [''create_export_exa'', ''get_export_exa'', ''list_exports_exa'',
     ''delete_export_exa'']"

definition websetManagementTools :: "string list" where
  "websetManagementTools = [''create_webset_search_exa'', ''get_webset_search_exa'',
     ''list_webset_searches_exa'', ''cancel_webset_search_exa'', ''update_webset_exa'',
     ''delete_webset_exa'', ''delete_webset_item_exa'', ''cancel_webset_exa'']"

definition websetSystemTools :: "string list" where
  "websetSystemTools = [''list_events_exa'', ''get_event_exa'']"

definition websetBatchTools :: "string list" where
  "websetBatchTools = [''update_webset_item_exa'', ''batch_update_items_exa'',
     ''batch_delete_items_exa'', ''batch_verify_items_exa'']"

definition allWebsetTools :: "string list" where
  "allWebsetTools = websetCoreTools @ websets_websetEnrichmentTools @ websetAutomationTools
     @ websetExportTools @ websetBatchTools @ websetManagementTools @ websetSystemTools"

text \<open>\<open>s.split(',')\<close>.\<close>

fun split_on :: "char \<Rightarrow> string \<Rightarrow> string list" where
  "split_on c [] = [[]]"
| "split_on c (x # xs) =
     (if x = c then [] # split_on c xs
      else (case split_on c xs of y # ys \<Rightarrow> (x # y) # ys | [] \<Rightarrow> [[x]]))"

text \<open>
  \<open>finalConfig.enabledTools\<close>: the configured list when there is one (an array is
  truthy even when empty), else the list of the \<open>ENABLED_TOOLS\<close> environment
  variable when that is set and not empty.
\<close>

definition finalConfig_enabledTools :: "string list option \<Rightarrow> string option \<Rightarrow> string list option" where
  "finalConfig_enabledTools configured ENABLED_TOOLS =
     (case configured of
        Some ts \<Rightarrow> Some ts
      | None \<Rightarrow>
          (case ENABLED_TOOLS of
             None \<Rightarrow> None
           | Some s \<Rightarrow> (if s = [] then None else Some (split_on CHR '','' s))))"

text \<open>
  What the websets-only entry point reads from the environment, and the registration
  functions it may call.
\<close>

record process_env =
  EXA_API_KEY :: "string option"
  ENABLED_TOOLS :: "string option"

datatype register_call =
    registerWebsetManagementTools
  | registerWebsetSearchTools
  | registerWebsetEnrichmentTools
  | registerWebsetItemTools
  | registerWebsetOperationTools
  | registerWebsetExportTools
  | registerWebsetBatchTools

definition register_if :: "bool \<Rightarrow> register_call \<Rightarrow> register_call list" where
  "register_if needed call = (if needed then [call] else [])"

text \<open>
  The registrations for the enabled-tools list in force: the registration functions
  called, in order, and the list of tool identifiers the entry point records.
\<close>

definition websets_register :: "string list option \<Rightarrow> register_call list \<times> string list" where
  "websets_register enabled =
     (let should = shouldRegisterTool websets_availableTools enabled;
          needsManagement = list_ex should (websetCoreTools @ websetManagementTools);
          needsSearch = list_ex should (filter (sublist ''search'') websetManagementTools);
          needsEnrichment = list_ex should websets_websetEnrichmentTools;
          needsItems = list_ex should (filter (sublist ''item'') websetCoreTools);
          needsOperations = list_ex should (websetAutomationTools @ websetSystemTools);
          needsExport = list_ex should websetExportTools;
          needsBatch = list_ex should websetBatchTools
      in (register_if needsManagement registerWebsetManagementTools
          @ register_if needsSearch registerWebsetSearchTools
          @ register_if needsEnrichment registerWebsetEnrichmentTools
          @ register_if needsItems registerWebsetItemTools
          @ register_if needsOperations registerWebsetOperationTools
          @ register_if needsExport registerWebsetExportTools
          @ register_if needsBatch registerWebsetBatchTools,
          filter should allWebsetTools))"

text \<open>
  The entry point: the API key is the configured one or else the one of the
  environment, and without a key it throws before anything is registered.
\<close>

definition websets_server :: "server_config \<Rightarrow> process_env \<Rightarrow> thrown + register_call list \<times> string list" where
  "websets_server config env =
     (let finalKey = (if truthy_str (exaApiKey config) then exaApiKey config else EXA_API_KEY env);
          finalTools = finalConfig_enabledTools (enabledTools config) (ENABLED_TOOLS env)
      in if \<not> truthy_str finalKey
         then Inl (Error ''EXA_API_KEY is required but not provided in config or environment'')
         else Inr (websets_register finalTools))"

definition all_register_calls :: "register_call list" where
  "all_register_calls =
     [registerWebsetManagementTools, registerWebsetSearchTools, registerWebsetEnrichmentTools,
      registerWebsetItemTools, registerWebsetOperationTools, registerWebsetExportTools,
      registerWebsetBatchTools]"

section \<open>Notions used to state the properties\<close>

fun clock :: "(nat \<Rightarrow> poll_event) \<Rightarrow> nat \<Rightarrow> nat" where
  "clock w 0 = 0"
| "clock w (Suc n) = clock w n + pollingInterval + latency (w n)"

definition still_pending :: "poll_event \<Rightarrow> bool" where
  "still_pending ev =
     (case reply ev of
        Inr (Some d) \<Rightarrow> status d \<noteq> Some ''completed'' \<and> status d \<noteq> Some ''failed''
      | _ \<Rightarrow> False)"

definition cadence :: "string \<Rightarrow> nat \<Rightarrow> action list" where
  "cadence tid n = concat (replicate n [Sleep pollingInterval, Get (statusUrl tid)])"

fun is_read :: "action \<Rightarrow> bool" where
  "is_read (Get _) = True"
| "is_read _ = False"

definition status_reads :: "action list \<Rightarrow> nat" where
  "status_reads tr = length (filter is_read tr)"

text \<open>The message of the error thrown for a completed task without a usable result.\<close>

definition malformed_message :: "ExaResearchResponse \<Rightarrow> string" where
  "malformed_message d =
     (if result d = None then ''Research completed but no results returned''
      else ''Research completed but results are in unexpected format'')"


subsection \<open>Example provider behaviours\<close>

definition ex_args :: research_args where
  "ex_args = \<lparr>query = ''X'', outputSchema = None, llmGenerateSchema = None\<rparr>"

definition ex_submitted :: ExaResearchResponse where
  "ex_submitted = \<lparr>requestId = ''r0'', taskId = Some ''t1'', status = Some ''pending'',
                    result = None, error = None\<rparr>"

definition ex_processing :: ExaResearchResponse where
  "ex_processing = \<lparr>requestId = ''r1'', taskId = Some ''t1'', status = Some ''processing'',
                     result = None, error = None\<rparr>"

definition ex_failed :: ExaResearchResponse where
  "ex_failed = \<lparr>requestId = ''r2'', taskId = Some ''t1'', status = Some ''failed'',
                 result = None, error = Some ''source unavailable''\<rparr>"

definition answers :: "ExaResearchResponse \<Rightarrow> poll_event" where
  "answers d = \<lparr>latency = 0, reply = Inr (Some d)\<rparr>"

definition ex_fails_first :: provider where
  "ex_fails_first = \<lparr>post_reply = Inr (Some ex_submitted), polls = (\<lambda>i. answers ex_failed)\<rparr>"

definition ex_fails_third :: provider where
  "ex_fails_third = \<lparr>post_reply = Inr (Some ex_submitted),
                      polls = (\<lambda>i. if i < 2 then answers ex_processing else answers ex_failed)\<rparr>"

definition ex_always_processing :: provider where
  "ex_always_processing = \<lparr>post_reply = Inr (Some ex_submitted), polls = (\<lambda>i. answers ex_processing)\<rparr>"

definition ex_completed_empty :: ExaResearchResponse where
  "ex_completed_empty = \<lparr>requestId = ''r3'', taskId = Some ''t1'', status = Some ''completed'',
                          result = None, error = None\<rparr>"

definition ex_completed_hollow :: ExaResearchResponse where
  "ex_completed_hollow = \<lparr>requestId = ''r4'', taskId = Some ''t1'', status = Some ''completed'',
                           result = Some \<lparr>report = None, data = None\<rparr>, error = None\<rparr>"

definition ex_report :: ExaResearchResponse where
  "ex_report = \<lparr>requestId = ''r5'', taskId = Some ''t1'', status = Some ''completed'',
                 result = Some \<lparr>report = Some ''findings'', data = None\<rparr>, error = None\<rparr>"

definition ex_data :: ExaResearchResponse where
  "ex_data = \<lparr>requestId = ''r6'', taskId = Some ''t1'', status = Some ''completed'',
               result = Some \<lparr>report = None, data = Some [(''k'', JNum 1)]\<rparr>, error = None\<rparr>"

definition ex_hollow_third :: provider where
  "ex_hollow_third = \<lparr>post_reply = Inr (Some ex_submitted),
                       polls = (\<lambda>i. if i < 2 then answers ex_processing else answers ex_completed_hollow)\<rparr>"

definition ex_empty_first :: provider where
  "ex_empty_first = \<lparr>post_reply = Inr (Some ex_submitted), polls = (\<lambda>i. answers ex_completed_empty)\<rparr>"


text \<open>
  Thirty-nine reads report \<open>processing\<close>; the fortieth, issued at 117 seconds and
  answered at 120 seconds, reports the completed task.
\<close>

definition ex_late_report :: provider where
  "ex_late_report = \<lparr>post_reply = Inr (Some ex_submitted),
                      polls = (\<lambda>i. if i < 39 then answers ex_processing else answers ex_report)\<rparr>"

subsection \<open>Example configurations\<close>

definition ex_env_one_tool :: process_env where
  "ex_env_one_tool = \<lparr>EXA_API_KEY = None, ENABLED_TOOLS = Some ''create_webset_exa''\<rparr>"

definition ex_env_plain :: process_env where
  "ex_env_plain = \<lparr>EXA_API_KEY = None, ENABLED_TOOLS = None\<rparr>"

definition ex_config :: "string list option \<Rightarrow> server_config" where
  "ex_config ts = \<lparr>exaApiKey = Some ''key'', enabledTools = ts, debug = False\<rparr>"

section \<open>Facts about the poll loop\<close>

lemma poll_check_Continue:
  "poll_check a tid d = Continue \<longleftrightarrow> status d \<noteq> Some ''completed'' \<and> status d \<noteq> Some ''failed''"
  by (simp add: poll_check_def split: option.splits)

lemma read_status_Continue: "read_status a tid ev = Continue \<longleftrightarrow> still_pending ev"
  by (simp add: read_status_def still_pending_def poll_check_Continue split: sum.splits option.splits)

lemma clock_mono: "i \<le> j \<Longrightarrow> clock w i \<le> clock w j"
  by (induction j) (auto simp: le_Suc_eq)

lemma cadence_Suc: "cadence tid (Suc n) = Sleep pollingInterval # Get (statusUrl tid) # cadence tid n"
  by (simp add: cadence_def)

lemma cadence_0: "cadence tid 0 = []"
  by (simp add: cadence_def)

lemma status_reads_cadence: "status_reads (cadence tid n) = n"
  by (induction n) (simp_all add: cadence_Suc cadence_0 status_reads_def)

lemma poll_skip:
  assumes pend: "\<forall>j<k. still_pending (w j)"
    and time: "clock w k < maxPollingTime"
    and le: "i \<le> k"
  shows "poll a tid w i (clock w i) =
           (fst (poll a tid w k (clock w k)), cadence tid (k - i) @ snd (poll a tid w k (clock w k)))"
  using le
proof (induction rule: inc_induct)
  case base
  show ?case by (simp add: cadence_0)
next
  case (step n)
  have t: "clock w n < maxPollingTime"
    using clock_mono [of n k w] step.hyps time by simp
  have c: "read_status a tid (w n) = Continue"
    using pend step.hyps by (simp add: read_status_Continue)
  have k: "k - n = Suc (k - Suc n)"
    using step.hyps by simp
  show ?case
    using step.IH t c
    by (subst poll.simps) (simp add: k cadence_Suc)
qed

lemma poll_stop_Throw:
  "t < maxPollingTime \<Longrightarrow> read_status a tid (w i) = Throw e \<Longrightarrow>
   poll a tid w i t = (Raised e, cadence tid 1)"
  by (subst poll.simps) (simp add: cadence_def)

lemma poll_stop_Return:
  "t < maxPollingTime \<Longrightarrow> read_status a tid (w i) = Return r \<Longrightarrow>
   poll a tid w i t = (Returned r, cadence tid 1)"
  by (subst poll.simps) (simp add: cadence_def)

lemma cadence_add: "cadence tid (m + n) = cadence tid m @ cadence tid n"
  by (simp add: cadence_def replicate_add)

lemma poll_first_Throw:
  assumes "\<forall>j<k. still_pending (w j)" "clock w k < maxPollingTime"
    "read_status a tid (w k) = Throw e"
  shows "poll a tid w 0 0 = (Raised e, cadence tid (Suc k))"
proof -
  have "poll a tid w 0 (clock w 0) =
          (fst (poll a tid w k (clock w k)), cadence tid (k - 0) @ snd (poll a tid w k (clock w k)))"
    using assms(1,2) by (rule poll_skip) simp
  moreover have "poll a tid w k (clock w k) = (Raised e, cadence tid 1)"
    using assms(2,3) by (rule poll_stop_Throw)
  ultimately show ?thesis
    using cadence_add [of tid k 1] by simp
qed

lemma poll_first_Return:
  assumes "\<forall>j<k. still_pending (w j)" "clock w k < maxPollingTime"
    "read_status a tid (w k) = Return r"
  shows "poll a tid w 0 0 = (Returned r, cadence tid (Suc k))"
proof -
  have "poll a tid w 0 (clock w 0) =
          (fst (poll a tid w k (clock w k)), cadence tid (k - 0) @ snd (poll a tid w k (clock w k)))"
    using assms(1,2) by (rule poll_skip) simp
  moreover have "poll a tid w k (clock w k) = (Returned r, cadence tid 1)"
    using assms(2,3) by (rule poll_stop_Return)
  ultimately show ?thesis
    using cadence_add [of tid k 1] by simp
qed

lemma read_status_failed:
  "reply ev = Inr (Some d) \<Longrightarrow> status d = Some ''failed'' \<Longrightarrow>
   read_status a tid ev = Throw (Error (str_or (error d) ''Research task failed''))"
  by (simp add: read_status_def poll_check_def)

lemma poll_never_terminal:
  "t = clock w i \<Longrightarrow> \<forall>j. clock w j < maxPollingTime \<longrightarrow> still_pending (w j) \<Longrightarrow>
   fst (poll a tid w i t) = Expired"
proof (induction a tid w i t rule: poll.induct)
  case (1 a tid w i t)
  show ?case
  proof (cases "t < maxPollingTime")
    case True
    then have c: "read_status a tid (w i) = Continue"
      using "1.prems" by (simp add: read_status_Continue)
    have "fst (poll a tid w (Suc i) (t + pollingInterval + latency (w i))) = Expired"
      using "1.IH" [OF True c] "1.prems" by simp
    then show ?thesis
      using True c by (subst poll.simps) (simp add: case_prod_beta)
  next
    case False
    then show ?thesis by (subst poll.simps) simp
  qed
qed

lemma status_reads_Post: "status_reads (Post u # tr) = status_reads tr"
  by (simp add: status_reads_def)

lemma read_status_malformed:
  assumes "reply ev = Inr (Some d)" and "status d = Some ''completed''"
    and "result d = None \<or> (\<exists>res. result d = Some res \<and> \<not> truthy_str (report res) \<and> data res = None)"
  shows "read_status a tid ev = Throw (Error (malformed_message d))"
  using assms by (auto simp: read_status_def poll_check_def malformed_message_def)


lemma poll_rounds:
  assumes "t = clock w i"
  shows "\<exists>m\<ge>i. snd (poll a tid w i t) = cadence tid (m - i)
           \<and> (\<forall>j. i \<le> j \<and> j < m \<longrightarrow> clock w j < maxPollingTime)
           \<and> (\<forall>j. i \<le> j \<and> Suc j < m \<longrightarrow> still_pending (w j))
           \<and> (if fst (poll a tid w i t) = Expired
               then maxPollingTime \<le> clock w m \<and> (\<forall>j. i \<le> j \<and> j < m \<longrightarrow> still_pending (w j))
               else i < m \<and> \<not> still_pending (w (m - 1)))"
  using assms
proof (induction a tid w i t rule: poll.induct)
  case (1 a tid w i t)
  show ?case
  proof (cases "t < maxPollingTime")
    case False
    then have "poll a tid w i t = (Expired, [])"
      by (subst poll.simps) simp
    then show ?thesis
      using False "1.prems" by (intro exI [of _ i]) (auto simp: cadence_0)
  next
    case True
    show ?thesis
    proof (cases "read_status a tid (w i) = Continue")
      case False
      then have np: "\<not> still_pending (w i)"
        by (simp add: read_status_Continue)
      from False have "\<exists>x. poll a tid w i t = (x, cadence tid 1) \<and> x \<noteq> Expired"
        using True by (subst poll.simps) (cases "read_status a tid (w i)"; simp add: cadence_def)
      then obtain x where x: "poll a tid w i t = (x, cadence tid 1)" "x \<noteq> Expired"
        by blast
      have ti: "clock w i < maxPollingTime"
        using True "1.prems" by simp
      have c1: "\<forall>j. i \<le> j \<and> j < Suc i \<longrightarrow> clock w j < maxPollingTime"
      proof (intro allI impI)
        fix j assume "i \<le> j \<and> j < Suc i"
        then have "j = i" by simp
        then show "clock w j < maxPollingTime" using ti by simp
      qed
      have c2: "\<forall>j. i \<le> j \<and> Suc j < Suc i \<longrightarrow> still_pending (w j)"
        by auto
      have c3: "if fst (poll a tid w i t) = Expired
         then maxPollingTime \<le> clock w (Suc i)
            \<and> (\<forall>j. i \<le> j \<and> j < Suc i \<longrightarrow> still_pending (w j))
         else i < Suc i \<and> \<not> still_pending (w (Suc i - 1))"
        using x np by simp
      have s: "snd (poll a tid w i t) = cadence tid (Suc i - i)"
        using x by simp
      have "i \<le> Suc i" by simp
      with s c1 c2 c3 show ?thesis by blast
    next
      case c: True
      have e: "t + pollingInterval + latency (w i) = clock w (Suc i)"
        using "1.prems" by simp
      let ?q = "poll a tid w (Suc i) (t + pollingInterval + latency (w i))"
      from "1.IH" [OF True c e]
      obtain m where m: "Suc i \<le> m" "snd ?q = cadence tid (m - Suc i)"
        "\<forall>j. Suc i \<le> j \<and> j < m \<longrightarrow> clock w j < maxPollingTime"
        "\<forall>j. Suc i \<le> j \<and> Suc j < m \<longrightarrow> still_pending (w j)"
        "if fst ?q = Expired
         then maxPollingTime \<le> clock w m \<and> (\<forall>j. Suc i \<le> j \<and> j < m \<longrightarrow> still_pending (w j))
         else Suc i < m \<and> \<not> still_pending (w (m - 1))"
        by blast
      have p: "poll a tid w i t = (fst ?q, Sleep pollingInterval # Get (statusUrl tid) # snd ?q)"
        using True c by (subst poll.simps) (simp add: case_prod_beta)
      have pi: "still_pending (w i)"
        using c by (simp add: read_status_Continue)
      have ti: "clock w i < maxPollingTime"
        using True "1.prems" by simp
      have split: "\<And>j. i \<le> j \<Longrightarrow> j = i \<or> Suc i \<le> j"
        by auto
      have "m - i = Suc (m - Suc i)"
        using m(1) by simp
      then have s: "snd (poll a tid w i t) = cadence tid (m - i)"
        using p m(2) by (simp add: cadence_Suc)
      have c1: "\<forall>j. i \<le> j \<and> j < m \<longrightarrow> clock w j < maxPollingTime"
        using m(3) ti split by blast
      have c2: "\<forall>j. i \<le> j \<and> Suc j < m \<longrightarrow> still_pending (w j)"
        using m(4) pi split by blast
      have c3: "if fst (poll a tid w i t) = Expired
         then maxPollingTime \<le> clock w m \<and> (\<forall>j. i \<le> j \<and> j < m \<longrightarrow> still_pending (w j))
         else i < m \<and> \<not> still_pending (w (m - 1))"
      proof (cases "fst ?q = Expired")
        case True
        then have "maxPollingTime \<le> clock w m" "\<forall>j. Suc i \<le> j \<and> j < m \<longrightarrow> still_pending (w j)"
          using m(5) by simp_all
        then have "maxPollingTime \<le> clock w m \<and> (\<forall>j. i \<le> j \<and> j < m \<longrightarrow> still_pending (w j))"
          using pi split by blast
        then show ?thesis using True p by simp
      next
        case False
        then have "Suc i < m \<and> \<not> still_pending (w (m - 1))"
          using m(5) by simp
        then show ?thesis using False p by simp
      qed
      from m(1) have "i \<le> m" by simp
      with s c1 c2 c3 show ?thesis by blast
    qed
  qed
qed

lemma poll_expired_only_if:
  assumes "fst (poll a tid w 0 0) = Expired" and "clock w j < maxPollingTime"
  shows "still_pending (w j)"
proof -
  have "0 = clock w 0" by simp
  from poll_rounds [OF this, of a tid]
  obtain m where m: "if fst (poll a tid w 0 0) = Expired
      then maxPollingTime \<le> clock w m \<and> (\<forall>j. 0 \<le> j \<and> j < m \<longrightarrow> still_pending (w j))
      else 0 < m \<and> \<not> still_pending (w (m - 1))"
    by blast
  then have e: "maxPollingTime \<le> clock w m" and p: "\<forall>j. j < m \<longrightarrow> still_pending (w j)"
    using assms(1) by simp_all
  have "j < m"
  proof (rule ccontr)
    assume "\<not> j < m"
    then have "clock w m \<le> clock w j"
      by (intro clock_mono) simp
    then show False
      using e assms(2) by simp
  qed
  then show ?thesis
    using p by simp
qed

section \<open>Facts about the handler\<close>

lemma submit_ok:
  "post_reply p = Inr (Some s) \<Longrightarrow> taskId s = Some tid \<Longrightarrow> tid \<noteq> [] \<Longrightarrow>
   deep_research_exa a p =
     (case poll a tid (polls p) 0 0 of
        (Returned r, tr) \<Rightarrow> (r, Post RESEARCH # tr)
      | (Raised e, tr) \<Rightarrow> (research_catch e, Post RESEARCH # tr)
      | (Expired, tr) \<Rightarrow>
          (\<lparr>content_text = Plain (timeout_text tid), isError = False\<rparr>, Post RESEARCH # tr))"
  by (simp add: deep_research_exa_def submit_def)



lemma report_text_shape:
  "prefix (''# Research Report: '' @ q) (report_text q r tid)
   \<and> sublist r (report_text q r tid)
   \<and> suffix (''---\<newline>*Research ID: '' @ tid @ ''*'') (report_text q r tid)"
proof -
  have "report_text q r tid = (''# Research Report: '' @ q) @ (''\<newline>\<newline>'' @ r @ ''\<newline>\<newline>---\<newline>*Research ID: '' @ tid @ ''*'')"
    by (simp add: report_text_def)
  then have 1: "prefix (''# Research Report: '' @ q) (report_text q r tid)"
    unfolding prefix_def by blast
  have "report_text q r tid = (''# Research Report: '' @ q @ ''\<newline>\<newline>'') @ r @ (''\<newline>\<newline>---\<newline>*Research ID: '' @ tid @ ''*'')"
    by (simp add: report_text_def)
  then have 2: "sublist r (report_text q r tid)"
    unfolding sublist_def by blast
  have "report_text q r tid = (''# Research Report: '' @ q @ ''\<newline>\<newline>'' @ r @ ''\<newline>\<newline>'') @ (''---\<newline>*Research ID: '' @ tid @ ''*'')"
    by (simp add: report_text_def)
  then have 3: "suffix (''---\<newline>*Research ID: '' @ tid @ ''*'') (report_text q r tid)"
    unfolding suffix_def by blast
  from 1 2 3 show ?thesis by simp
qed

lemma schema_flag_emitted:
  "map_of (emitted_members (formattedResults a tid d payload)) ''schemaUsed'' =
     (if outputSchema a \<noteq> None then Some (JBool True) else map_option JBool (llmGenerateSchema a))"
  by (simp add: formattedResults_def schemaUsed_def split: option.splits)

lemma structured_members:
  "map_of (emitted_members (formattedResults a tid d payload)) ''structuredData'' = Some (JObj payload)
   \<and> map_of (emitted_members (formattedResults a tid d payload)) ''taskId'' = Some (JStr tid)
   \<and> map_of (emitted_members (formattedResults a tid d payload)) ''report'' = None"
  by (simp add: formattedResults_def schemaUsed_def split: option.splits)

section \<open>Facts about tool registration\<close>

lemma shouldRegisterTool_empty:
  "shouldRegisterTool registry (Some []) = shouldRegisterTool registry None"
  by (rule ext) (simp add: shouldRegisterTool_def)

lemma shouldRegisterTool_filter:
  "shouldRegisterTool registry (Some (x # xs)) toolId = (toolId \<in> set (x # xs))"
  by (simp add: shouldRegisterTool_def)

lemma shouldRegisterTool_default:
  "shouldRegisterTool registry (Some []) toolId = (map_of registry toolId = Some True)"
  by (simp add: shouldRegisterTool_def split: option.splits)

lemma registered_all:
  "registeredTools \<lparr>exaApiKey = k, enabledTools = Some [], debug = dbg\<rparr> = map fst availableTools"
  by code_simp

lemma websets_register_empty:
  "websets_register (Some []) = (all_register_calls, allWebsetTools)"
  by code_simp

lemma websets_register_absent: "websets_register None = websets_register (Some [])"
  by (simp add: websets_register_def shouldRegisterTool_empty)

lemma websets_server_empty:
  "websets_server \<lparr>exaApiKey = k, enabledTools = Some [], debug = dbg\<rparr> env =
     (if truthy_str k \<or> truthy_str (EXA_API_KEY env)
      then Inr (all_register_calls, allWebsetTools)
      else Inl (Error ''EXA_API_KEY is required but not provided in config or environment''))"
  by (simp add: websets_server_def finalConfig_enabledTools_def websets_register_empty)

lemma websets_server_absent:
  "websets_server \<lparr>exaApiKey = k, enabledTools = None, debug = dbg\<rparr> env =
   websets_server
     \<lparr>exaApiKey = k,
      enabledTools = (if truthy_str (ENABLED_TOOLS env)
                      then Some (split_on CHR '','' (the (ENABLED_TOOLS env))) else Some []),
      debug = dbg\<rparr> env"
  by (cases "ENABLED_TOOLS env")
    (simp_all add: websets_server_def finalConfig_enabledTools_def websets_register_absent)

lemma websets_registry_covered:
  "list_all (\<lambda>t. List.member allWebsetTools t) (map fst websets_availableTools)"
  by code_simp

section \<open>The claims of the specification\<close>

subsection \<open>C1: the two status decoders\<close>

text \<open>
  C1 as stated (the status check tool and the poll loop decode every provider response
  to the same outcome) does not hold. For \<open>completed\<close> without a result payload the
  poll loop throws, and the call ends as an error result, while the status check tool
  answers with an ordinary status document.
\<close>

theorem decode_paths_counterexample:
  "status ex_completed_empty = Some ''completed''
   \<and> result ex_completed_empty = None
   \<and> poll_check ex_args ''t1'' ex_completed_empty =
       Throw (Error ''Research completed but no results returned'')
   \<and> fst (deep_research_exa ex_args ex_empty_first) =
       \<lparr>content_text = Plain ''Research error: Research completed but no results returned'',
        isError = True\<rparr>
   \<and> check_research_status_exa ''t1'' (Inr (Some ex_completed_empty)) =
       \<lparr>content_text = JSON_stringify (JObj [(''taskId'', JStr ''t1''),
                                            (''status'', JStr ''completed''),
                                            (''error'', JUndefined)]),
        isError = False\<rparr>"
  by (simp add: ex_completed_empty_def poll_check_def deep_research_exa_def ex_empty_first_def
      ex_submitted_def submit_def poll.simps maxPollingTime_def read_status_def answers_def
      research_catch_def check_research_status_exa_def check_decode_def status_document_def)

text \<open>
  C1, amended: the two decoders agree exactly on the completed responses that carry a
  non-empty report or, failing that, a data object: both return a result without the
  error flag that renders that report, respectively that data. On every other response
  the status check tool returns the JSON status document (no error flag); the poll
  loop throws when the status is \<open>completed\<close> or \<open>failed\<close> and keeps polling
  otherwise.
\<close>

theorem decode_paths_agree_on_results:
  "(case poll_check a tid d of
      Return r \<Rightarrow>
        status d = Some ''completed'' \<and> \<not> isError r \<and> \<not> isError (check_decode tid d)
        \<and> (\<exists>res. result d = Some res
              \<and> (if truthy_str (report res)
                  then content_text r = Plain (report_text (query a) (the (report res)) tid)
                     \<and> content_text (check_decode tid d) =
                         Plain (check_report_text tid (the (report res)))
                  else (\<exists>payload. data res = Some payload
                     \<and> content_text r = JSON_stringify (formattedResults a tid d payload)
                     \<and> content_text (check_decode tid d) =
                         JSON_stringify (check_data_document tid payload))))
    | Throw e \<Rightarrow>
        (status d = Some ''completed'' \<or> status d = Some ''failed'')
        \<and> check_decode tid d = status_document tid d \<and> \<not> isError (check_decode tid d)
    | Continue \<Rightarrow>
        status d \<noteq> Some ''completed'' \<and> status d \<noteq> Some ''failed''
        \<and> check_decode tid d = status_document tid d \<and> \<not> isError (check_decode tid d))"
  by (auto simp: poll_check_def check_decode_def status_document_def check_report_text_def
      check_data_document_def split: option.splits)

theorem decode_paths_agree_on_results_witness:
  "poll_check ex_args ''t1'' ex_report =
     Return \<lparr>content_text = Plain ''# Research Report: X\<newline>\<newline>findings\<newline>\<newline>---\<newline>*Research ID: t1*'',
             isError = False\<rparr>
   \<and> check_decode ''t1'' ex_report =
       \<lparr>content_text = Plain ''# Research Report (Task: t1)\<newline>\<newline>findings'', isError = False\<rparr>
   \<and> poll_check ex_args ''t1'' ex_processing = Continue
   \<and> check_decode ''t1'' ex_processing = status_document ''t1'' ex_processing
   \<and> poll_check ex_args ''t1'' ex_failed = Throw (Error ''source unavailable'')
   \<and> check_decode ''t1'' ex_failed =
       \<lparr>content_text = JSON_stringify (JObj [(''taskId'', JStr ''t1''), (''status'', JStr ''failed''),
                                            (''error'', JStr ''source unavailable'')]),
        isError = False\<rparr>"
  using decode_paths_agree_on_results [where a = ex_args and tid = "''t1''" and d = ex_report]
    decode_paths_agree_on_results [where a = ex_args and tid = "''t1''" and d = ex_processing]
    decode_paths_agree_on_results [where a = ex_args and tid = "''t1''" and d = ex_failed]
  by (simp add: ex_report_def ex_processing_def ex_failed_def ex_args_def poll_check_def
      check_decode_def check_report_text_def report_text_def status_document_def)

subsection \<open>C2: a failed task\<close>

text \<open>
  C2 as stated (a failed task yields a result without the error flag) does not hold:
  the failed branch throws, and the catch block answers with \<open>isError: true\<close>.
  Here the first status read reports \<open>failed\<close> with the error
  \<open>source unavailable\<close>.
\<close>

theorem failed_task_flag_counterexample:
  "reply (polls ex_fails_first 0) = Inr (Some ex_failed)
   \<and> status ex_failed = Some ''failed''
   \<and> fst (deep_research_exa ex_args ex_fails_first) =
       \<lparr>content_text = Plain ''Research error: source unavailable'', isError = True\<rparr>
   \<and> isError (fst (deep_research_exa ex_args ex_fails_first))"
  by (simp add: deep_research_exa_def ex_fails_first_def ex_submitted_def submit_def poll.simps
      maxPollingTime_def read_status_def answers_def poll_check_def ex_failed_def
      research_catch_def)

text \<open>
  C2, amended: when the first terminal status the loop reads is \<open>failed\<close>, the call
  returns the text \<open>Research error: \<close> followed by the provider's error (or
  \<open>Research task failed\<close> when that is absent or empty), with the error flag set,
  after exactly that many status reads.
\<close>

theorem failed_task_sets_error_flag:
  assumes "post_reply p = Inr (Some s)" and "taskId s = Some tid" and "tid \<noteq> []"
    and "\<forall>j<k. still_pending (polls p j)"
    and "clock (polls p) k < maxPollingTime"
    and "reply (polls p k) = Inr (Some d)"
    and "status d = Some ''failed''"
  shows "deep_research_exa a p =
           (\<lparr>content_text = Plain (''Research error: '' @ str_or (error d) ''Research task failed''),
             isError = True\<rparr>,
            Post RESEARCH # cadence tid (Suc k))"
proof -
  have "read_status a tid (polls p k) = Throw (Error (str_or (error d) ''Research task failed''))"
    using assms(6,7) by (rule read_status_failed)
  with assms(4,5) have "poll a tid (polls p) 0 0 =
      (Raised (Error (str_or (error d) ''Research task failed'')), cadence tid (Suc k))"
    by (rule poll_first_Throw)
  then show ?thesis
    using submit_ok [OF assms(1-3), of a] by (simp add: research_catch_def)
qed

theorem failed_task_sets_error_flag_witness:
  "post_reply ex_fails_third = Inr (Some ex_submitted)
   \<and> taskId ex_submitted = Some ''t1''
   \<and> still_pending (polls ex_fails_third 0)
   \<and> still_pending (polls ex_fails_third 1)
   \<and> clock (polls ex_fails_third) 2 < maxPollingTime
   \<and> reply (polls ex_fails_third 2) = Inr (Some ex_failed)
   \<and> status ex_failed = Some ''failed''
   \<and> deep_research_exa ex_args ex_fails_third =
       (\<lparr>content_text = Plain ''Research error: source unavailable'', isError = True\<rparr>,
        [Post ''/research/v0/tasks'',
         Sleep 3000, Get ''/research/v0/tasks/t1'',
         Sleep 3000, Get ''/research/v0/tasks/t1'',
         Sleep 3000, Get ''/research/v0/tasks/t1''])"
proof -
  have a: "post_reply ex_fails_third = Inr (Some ex_submitted)"
    by (simp add: ex_fails_third_def)
  have b: "taskId ex_submitted = Some ''t1''"
    by (simp add: ex_submitted_def)
  have c: "''t1'' \<noteq> []"
    by simp
  have d: "\<forall>j<2. still_pending (polls ex_fails_third j)"
    by (simp add: ex_fails_third_def answers_def still_pending_def ex_processing_def)
  have e: "clock (polls ex_fails_third) 2 < maxPollingTime"
    by (simp add: numeral_2_eq_2 ex_fails_third_def answers_def maxPollingTime_def
        pollingInterval_def)
  have f: "reply (polls ex_fails_third 2) = Inr (Some ex_failed)"
    by (simp add: ex_fails_third_def answers_def)
  have g: "status ex_failed = Some ''failed''"
    by (simp add: ex_failed_def)
  show ?thesis
    using failed_task_sets_error_flag [OF a b c d e f g, of ex_args] a b d e f g
    by (simp add: ex_failed_def cadence_def pollingInterval_def statusUrl_def RESEARCH_def
        numeral_3_eq_3)
qed

subsection \<open>C3: polling stops at the first failed status\<close>

text \<open>
  C3: as soon as a status read reports \<open>failed\<close>, the loop is left with an error
  that carries the provider's error message (or \<open>Research task failed\<close> when it is
  absent or empty), and no further status read is issued: when the read of round
  \<open>k\<close> is the first one that is not pending, the loop has performed exactly
  \<open>k + 1\<close> sleeps and reads.
\<close>

theorem failed_ends_polling:
  assumes "\<forall>j<k. still_pending (w j)"
    and "clock w k < maxPollingTime"
    and "reply (w k) = Inr (Some d)"
    and "status d = Some ''failed''"
  shows "poll a tid w 0 0 =
           (Raised (Error (str_or (error d) ''Research task failed'')), cadence tid (Suc k))
         \<and> status_reads (snd (poll a tid w 0 0)) = Suc k"
proof -
  have "read_status a tid (w k) = Throw (Error (str_or (error d) ''Research task failed''))"
    using assms(3,4) by (rule read_status_failed)
  with assms(1,2) have "poll a tid w 0 0 =
      (Raised (Error (str_or (error d) ''Research task failed'')), cadence tid (Suc k))"
    by (rule poll_first_Throw)
  then show ?thesis
    by (simp add: status_reads_cadence)
qed

text \<open>
  The example of the specification: \<open>failed\<close> with \<open>source unavailable\<close> on
  the first check, one poll; and the same answer on the third check, three polls.
\<close>

theorem failed_ends_polling_witness:
  "clock (polls ex_fails_first) 0 < maxPollingTime
   \<and> reply (polls ex_fails_first 0) = Inr (Some ex_failed)
   \<and> status ex_failed = Some ''failed''
   \<and> poll ex_args ''t1'' (polls ex_fails_first) 0 0 =
       (Raised (Error ''source unavailable''), [Sleep 3000, Get ''/research/v0/tasks/t1''])
   \<and> status_reads (snd (poll ex_args ''t1'' (polls ex_fails_first) 0 0)) = 1
   \<and> still_pending (polls ex_fails_third 0)
   \<and> still_pending (polls ex_fails_third 1)
   \<and> clock (polls ex_fails_third) 2 < maxPollingTime
   \<and> reply (polls ex_fails_third 2) = Inr (Some ex_failed)
   \<and> fst (poll ex_args ''t1'' (polls ex_fails_third) 0 0) = Raised (Error ''source unavailable'')
   \<and> status_reads (snd (poll ex_args ''t1'' (polls ex_fails_third) 0 0)) = 3"
proof -
  have a: "clock (polls ex_fails_first) 0 < maxPollingTime"
    by (simp add: maxPollingTime_def)
  have b: "reply (polls ex_fails_first 0) = Inr (Some ex_failed)"
    by (simp add: ex_fails_first_def answers_def)
  have c: "status ex_failed = Some ''failed''"
    by (simp add: ex_failed_def)
  have d: "\<forall>j<2. still_pending (polls ex_fails_third j)"
    by (simp add: ex_fails_third_def answers_def still_pending_def ex_processing_def)
  have e: "clock (polls ex_fails_third) 2 < maxPollingTime"
    by (simp add: numeral_2_eq_2 ex_fails_third_def answers_def maxPollingTime_def
        pollingInterval_def)
  have f: "reply (polls ex_fails_third 2) = Inr (Some ex_failed)"
    by (simp add: ex_fails_third_def answers_def)
  have g: "\<forall>j<0. still_pending (polls ex_fails_first j)"
    by simp
  show ?thesis
    using failed_ends_polling [OF g a b c, of ex_args "''t1''"]
      failed_ends_polling [OF d e f c, of ex_args "''t1''"] a b c d e f
    by (simp add: ex_failed_def cadence_def pollingInterval_def statusUrl_def status_reads_def
        numeral_3_eq_3)
qed

subsection \<open>C4: the bounded wait\<close>

text \<open>
  C4 as stated (no status read returns a terminal status before the 120 seconds have
  elapsed, hence the still-processing notice) does not hold. The deadline is tested at
  the head of the loop only, before the sleep, so the read of a round that starts
  before the deadline is still issued, and is answered at or after it. Below, the
  thirty-nine reads answered before 120000 ms all report \<open>processing\<close>; the round
  that starts at 117000 ms reads the completed task at 120000 ms, and the call returns
  the report.
\<close>

theorem timeout_late_result_counterexample:
  "maxPollingTime = 120000
   \<and> list_all (\<lambda>j. still_pending (polls ex_late_report j)) [0..<39]
   \<and> clock (polls ex_late_report) 39 = 117000
   \<and> clock (polls ex_late_report) 40 = 120000
   \<and> reply (polls ex_late_report 39) = Inr (Some ex_report)
   \<and> status ex_report = Some ''completed''
   \<and> fst (deep_research_exa ex_args ex_late_report) =
       \<lparr>content_text = Plain ''# Research Report: X\<newline>\<newline>findings\<newline>\<newline>---\<newline>*Research ID: t1*'',
        isError = False\<rparr>
   \<and> fst (deep_research_exa ex_args ex_late_report) \<noteq>
       \<lparr>content_text = Plain (timeout_text ''t1''), isError = False\<rparr>
   \<and> status_reads (snd (deep_research_exa ex_args ex_late_report)) = 40"
proof -
  let ?w = "polls ex_late_report"
  have pend: "\<forall>j<39. still_pending (?w j)"
    by (simp add: ex_late_report_def answers_def still_pending_def ex_processing_def)
  have clk: "clock ?w j = 3000 * j" for j
    by (induction j) (simp_all add: ex_late_report_def answers_def pollingInterval_def)
  have t: "clock ?w 39 < maxPollingTime"
    by (simp add: clk maxPollingTime_def)
  have r: "reply (?w 39) = Inr (Some ex_report)"
    by (simp add: ex_late_report_def answers_def)
  then have rs: "read_status ex_args ''t1'' (?w 39) =
      Return \<lparr>content_text = Plain ''# Research Report: X\<newline>\<newline>findings\<newline>\<newline>---\<newline>*Research ID: t1*'',
              isError = False\<rparr>"
    by (simp add: read_status_def poll_check_def ex_report_def ex_args_def report_text_def)
  have p: "poll ex_args ''t1'' ?w 0 0 =
      (Returned \<lparr>content_text = Plain ''# Research Report: X\<newline>\<newline>findings\<newline>\<newline>---\<newline>*Research ID: t1*'',
                 isError = False\<rparr>,
       cadence ''t1'' (Suc 39))"
    using pend t rs by (rule poll_first_Return)
  have s: "post_reply ex_late_report = Inr (Some ex_submitted)"
    by (simp add: ex_late_report_def)
  have i: "taskId ex_submitted = Some ''t1''"
    by (simp add: ex_submitted_def)
  have d: "deep_research_exa ex_args ex_late_report =
      (\<lparr>content_text = Plain ''# Research Report: X\<newline>\<newline>findings\<newline>\<newline>---\<newline>*Research ID: t1*'',
        isError = False\<rparr>,
       Post RESEARCH # cadence ''t1'' (Suc 39))"
    using submit_ok [OF s i, of ex_args] p by simp
  have n: "status_reads (snd (deep_research_exa ex_args ex_late_report)) = 40"
    by (simp add: d status_reads_Post status_reads_cadence)
  have l: "list_all (\<lambda>j. still_pending (?w j)) [0..<39]"
    using pend by (simp add: list_all_iff)
  have x: "fst (deep_research_exa ex_args ex_late_report) \<noteq>
       \<lparr>content_text = Plain (timeout_text ''t1''), isError = False\<rparr>"
    by (simp add: d timeout_text_def)
  have c39: "clock ?w 39 = 117000" and c40: "clock ?w 40 = 120000"
    by (simp_all add: clk)
  have st: "status ex_report = Some ''completed''"
    by (simp add: ex_report_def)
  from l c39 c40 r st d n x show ?thesis
    by (simp add: maxPollingTime_def)
qed

text \<open>
  C4, amended: when every status read the loop issues reports a status that is neither
  \<open>completed\<close> nor \<open>failed\<close> (one read per round that starts before the deadline
  of 120 seconds, so also the last one, which is answered at or after the deadline),
  the call returns the still-processing notice, without the error flag, and the notice
  contains the task identifier.
\<close>

theorem timeout_returns_task_id:
  assumes "post_reply p = Inr (Some s)" and "taskId s = Some tid" and "tid \<noteq> []"
    and "\<forall>j. clock (polls p) j < maxPollingTime \<longrightarrow> still_pending (polls p j)"
  shows "fst (deep_research_exa a p) = \<lparr>content_text = Plain (timeout_text tid), isError = False\<rparr>
         \<and> sublist tid (timeout_text tid)"
proof -
  have "fst (poll a tid (polls p) 0 0) = Expired"
    using assms(4) by (intro poll_never_terminal) simp_all
  then have "fst (deep_research_exa a p) = \<lparr>content_text = Plain (timeout_text tid), isError = False\<rparr>"
    using submit_ok [OF assms(1-3), of a] by (cases "poll a tid (polls p) 0 0") simp
  moreover have "sublist tid (timeout_text tid)"
    unfolding timeout_text_def by (rule sublist_appendI)
  ultimately show ?thesis by simp
qed

theorem timeout_returns_task_id_witness:
  "post_reply ex_always_processing = Inr (Some ex_submitted)
   \<and> taskId ex_submitted = Some ''t1''
   \<and> (\<forall>j. still_pending (polls ex_always_processing j))
   \<and> fst (deep_research_exa ex_args ex_always_processing) =
       \<lparr>content_text = Plain (timeout_text ''t1''), isError = False\<rparr>
   \<and> sublist ''t1'' (timeout_text ''t1'')"
proof -
  have a: "post_reply ex_always_processing = Inr (Some ex_submitted)"
    by (simp add: ex_always_processing_def)
  have b: "taskId ex_submitted = Some ''t1''"
    by (simp add: ex_submitted_def)
  have c: "''t1'' \<noteq> []"
    by simp
  have d: "\<forall>j. still_pending (polls ex_always_processing j)"
    by (simp add: ex_always_processing_def answers_def still_pending_def ex_processing_def)
  then have e: "\<forall>j. clock (polls ex_always_processing) j < maxPollingTime
      \<longrightarrow> still_pending (polls ex_always_processing j)"
    by simp
  show ?thesis
    using timeout_returns_task_id [OF a b c e, of ex_args] a b d by simp
qed

subsection \<open>C5: submission\<close>



subsection \<open>C6: a completed task without a usable result\<close>

text \<open>
  C6: when the first terminal status the loop reads is \<open>completed\<close> and the
  response has no result payload, or a payload with neither a (non-empty) report nor a
  data field, the call ends with an error result (error flag set) and that status read
  is the last one: nothing is retried.
\<close>

theorem completed_without_result_is_fatal:
  assumes "post_reply p = Inr (Some s)" and "taskId s = Some tid" and "tid \<noteq> []"
    and "\<forall>j<k. still_pending (polls p j)"
    and "clock (polls p) k < maxPollingTime"
    and "reply (polls p k) = Inr (Some d)"
    and "status d = Some ''completed''"
    and "result d = None \<or> (\<exists>res. result d = Some res \<and> \<not> truthy_str (report res) \<and> data res = None)"
  shows "deep_research_exa a p =
           (\<lparr>content_text = Plain (''Research error: '' @ malformed_message d), isError = True\<rparr>,
            Post RESEARCH # cadence tid (Suc k))
         \<and> status_reads (snd (deep_research_exa a p)) = Suc k"
proof -
  have "read_status a tid (polls p k) = Throw (Error (malformed_message d))"
    using assms(6-8) by (rule read_status_malformed)
  with assms(4,5) have "poll a tid (polls p) 0 0 = (Raised (Error (malformed_message d)), cadence tid (Suc k))"
    by (rule poll_first_Throw)
  then have "deep_research_exa a p =
           (\<lparr>content_text = Plain (''Research error: '' @ malformed_message d), isError = True\<rparr>,
            Post RESEARCH # cadence tid (Suc k))"
    using submit_ok [OF assms(1-3), of a] by (simp add: research_catch_def)
  then show ?thesis
    by (simp add: status_reads_Post status_reads_cadence)
qed

theorem completed_without_result_is_fatal_witness:
  "post_reply ex_hollow_third = Inr (Some ex_submitted)
   \<and> taskId ex_submitted = Some ''t1''
   \<and> still_pending (polls ex_hollow_third 0)
   \<and> still_pending (polls ex_hollow_third 1)
   \<and> clock (polls ex_hollow_third) 2 < maxPollingTime
   \<and> reply (polls ex_hollow_third 2) = Inr (Some ex_completed_hollow)
   \<and> status ex_completed_hollow = Some ''completed''
   \<and> result ex_completed_hollow = Some \<lparr>report = None, data = None\<rparr>
   \<and> fst (deep_research_exa ex_args ex_hollow_third) =
       \<lparr>content_text = Plain ''Research error: Research completed but results are in unexpected format'',
        isError = True\<rparr>
   \<and> status_reads (snd (deep_research_exa ex_args ex_hollow_third)) = 3
   \<and> post_reply ex_empty_first = Inr (Some ex_submitted)
   \<and> reply (polls ex_empty_first 0) = Inr (Some ex_completed_empty)
   \<and> status ex_completed_empty = Some ''completed''
   \<and> result ex_completed_empty = None
   \<and> fst (deep_research_exa ex_args ex_empty_first) =
       \<lparr>content_text = Plain ''Research error: Research completed but no results returned'',
        isError = True\<rparr>
   \<and> status_reads (snd (deep_research_exa ex_args ex_empty_first)) = 1"
proof -
  have a: "post_reply ex_hollow_third = Inr (Some ex_submitted)"
    by (simp add: ex_hollow_third_def)
  have b: "taskId ex_submitted = Some ''t1''"
    by (simp add: ex_submitted_def)
  have c: "''t1'' \<noteq> []"
    by simp
  have d: "\<forall>j<2. still_pending (polls ex_hollow_third j)"
    by (simp add: ex_hollow_third_def answers_def still_pending_def ex_processing_def)
  have e: "clock (polls ex_hollow_third) 2 < maxPollingTime"
    by (simp add: numeral_2_eq_2 ex_hollow_third_def answers_def maxPollingTime_def
        pollingInterval_def)
  have f: "reply (polls ex_hollow_third 2) = Inr (Some ex_completed_hollow)"
    by (simp add: ex_hollow_third_def answers_def)
  have g: "status ex_completed_hollow = Some ''completed''"
    by (simp add: ex_completed_hollow_def)
  have h: "result ex_completed_hollow = Some \<lparr>report = None, data = None\<rparr>"
    by (simp add: ex_completed_hollow_def)
  then have h': "result ex_completed_hollow = None \<or>
      (\<exists>res. result ex_completed_hollow = Some res \<and> \<not> truthy_str (report res) \<and> data res = None)"
    by simp
  have a1: "post_reply ex_empty_first = Inr (Some ex_submitted)"
    by (simp add: ex_empty_first_def)
  have d1: "\<forall>j<0. still_pending (polls ex_empty_first j)"
    by simp
  have e1: "clock (polls ex_empty_first) 0 < maxPollingTime"
    by (simp add: maxPollingTime_def)
  have f1: "reply (polls ex_empty_first 0) = Inr (Some ex_completed_empty)"
    by (simp add: ex_empty_first_def answers_def)
  have g1: "status ex_completed_empty = Some ''completed''"
    by (simp add: ex_completed_empty_def)
  have h1: "result ex_completed_empty = None"
    by (simp add: ex_completed_empty_def)
  then have h1': "result ex_completed_empty = None \<or>
      (\<exists>res. result ex_completed_empty = Some res \<and> \<not> truthy_str (report res) \<and> data res = None)"
    by simp
  show ?thesis
    using completed_without_result_is_fatal [OF a b c d e f g h', of ex_args]
      completed_without_result_is_fatal [OF a1 b c d1 e1 f1 g1 h1', of ex_args]
      a b d e f g h a1 f1 g1 h1
    by (simp add: malformed_message_def status_reads_Post status_reads_cadence)
qed

subsection \<open>C7: rendering a completed task\<close>

text \<open>
  C7 as stated places the originating query in the footer of the report text. The
  text after the report is the rule and the task identifier only; the query stands in
  the title.
\<close>

theorem report_footer_counterexample:
  "status ex_report = Some ''completed''
   \<and> result ex_report = Some \<lparr>report = Some ''findings'', data = None\<rparr>
   \<and> query ex_args = ''X''
   \<and> poll_check ex_args ''t1'' ex_report =
       Return \<lparr>content_text =
                 Plain (''# Research Report: X\<newline>\<newline>'' @ ''findings'' @ ''\<newline>\<newline>---\<newline>*Research ID: t1*''),
               isError = False\<rparr>
   \<and> \<not> sublist ''X'' ''\<newline>\<newline>---\<newline>*Research ID: t1*''"
  by (simp add: ex_report_def ex_args_def poll_check_def report_text_def sublist_code)

text \<open>
  C7, amended: for a completed task with a result payload, a non-empty report is
  rendered as the title \<open># Research Report: \<close> followed by the query, a blank line,
  the report, a blank line and the footer \<open>---\<close>, \<open>*Research ID: taskId*\<close> (the
  footer carries the task identifier, the title the query); without a non-empty report,
  a data object is rendered as a JSON document that holds the data unchanged under
  \<open>structuredData\<close>, the task identifier under \<open>taskId\<close>, and no report member.
\<close>

theorem completed_rendering:
  assumes "status d = Some ''completed''" and "result d = Some res"
  shows "(\<forall>r. report res = Some r \<and> r \<noteq> [] \<longrightarrow>
            poll_check a tid d =
              Return \<lparr>content_text = Plain (report_text (query a) r tid), isError = False\<rparr>
            \<and> report_text (query a) r tid =
                ''# Research Report: '' @ query a @ ''\<newline>\<newline>'' @ r @ ''\<newline>\<newline>---\<newline>*Research ID: '' @ tid @ ''*''
            \<and> prefix (''# Research Report: '' @ query a) (report_text (query a) r tid)
            \<and> sublist r (report_text (query a) r tid)
            \<and> suffix (''---\<newline>*Research ID: '' @ tid @ ''*'') (report_text (query a) r tid))
       \<and> (\<forall>payload. \<not> truthy_str (report res) \<and> data res = Some payload \<longrightarrow>
            poll_check a tid d =
              Return \<lparr>content_text = JSON_stringify (formattedResults a tid d payload),
                      isError = False\<rparr>
            \<and> map_of (emitted_members (formattedResults a tid d payload)) ''structuredData'' =
                Some (JObj payload)
            \<and> map_of (emitted_members (formattedResults a tid d payload)) ''taskId'' =
                Some (JStr tid)
            \<and> map_of (emitted_members (formattedResults a tid d payload)) ''report'' = None)"
proof (intro conjI allI impI)
  fix r assume "report res = Some r \<and> r \<noteq> []"
  then show "poll_check a tid d =
      Return \<lparr>content_text = Plain (report_text (query a) r tid), isError = False\<rparr>"
    using assms by (simp add: poll_check_def)
next
  fix r
  show "report_text (query a) r tid =
      ''# Research Report: '' @ query a @ ''\<newline>\<newline>'' @ r @ ''\<newline>\<newline>---\<newline>*Research ID: '' @ tid @ ''*''"
    by (simp add: report_text_def)
next
  fix r
  show "prefix (''# Research Report: '' @ query a) (report_text (query a) r tid)"
    using report_text_shape by blast
next
  fix r
  show "sublist r (report_text (query a) r tid)"
    using report_text_shape by blast
next
  fix r
  show "suffix (''---\<newline>*Research ID: '' @ tid @ ''*'') (report_text (query a) r tid)"
    using report_text_shape by blast
next
  fix payload assume "\<not> truthy_str (report res) \<and> data res = Some payload"
  then show "poll_check a tid d =
      Return \<lparr>content_text = JSON_stringify (formattedResults a tid d payload), isError = False\<rparr>"
    using assms by (simp add: poll_check_def)
next
  fix payload
  show "map_of (emitted_members (formattedResults a tid d payload)) ''structuredData'' =
      Some (JObj payload)"
    using structured_members by blast
next
  fix payload
  show "map_of (emitted_members (formattedResults a tid d payload)) ''taskId'' = Some (JStr tid)"
    using structured_members by blast
next
  fix payload
  show "map_of (emitted_members (formattedResults a tid d payload)) ''report'' = None"
    using structured_members by blast
qed

theorem completed_rendering_witness:
  "status ex_report = Some ''completed''
   \<and> result ex_report = Some \<lparr>report = Some ''findings'', data = None\<rparr>
   \<and> poll_check ex_args ''t1'' ex_report =
       Return \<lparr>content_text = Plain ''# Research Report: X\<newline>\<newline>findings\<newline>\<newline>---\<newline>*Research ID: t1*'',
               isError = False\<rparr>
   \<and> status ex_data = Some ''completed''
   \<and> result ex_data = Some \<lparr>report = None, data = Some [(''k'', JNum 1)]\<rparr>
   \<and> poll_check ex_args ''t1'' ex_data =
       Return \<lparr>content_text = JSON_stringify (formattedResults ex_args ''t1'' ex_data [(''k'', JNum 1)]),
               isError = False\<rparr>
   \<and> map_of (emitted_members (formattedResults ex_args ''t1'' ex_data [(''k'', JNum 1)])) ''structuredData'' =
       Some (JObj [(''k'', JNum 1)])"
proof -
  have a: "status ex_report = Some ''completed''"
    by (simp add: ex_report_def)
  have b: "result ex_report = Some \<lparr>report = Some ''findings'', data = None\<rparr>"
    by (simp add: ex_report_def)
  have c: "status ex_data = Some ''completed''"
    by (simp add: ex_data_def)
  have d: "result ex_data = Some \<lparr>report = None, data = Some [(''k'', JNum 1)]\<rparr>"
    by (simp add: ex_data_def)
  show ?thesis
    using completed_rendering [OF a b, of ex_args "''t1''"]
      completed_rendering [OF c d, of ex_args "''t1''"] a b c d
    by (simp add: ex_args_def)
qed

subsection \<open>C8: the schema flag of the structured-data document\<close>

text \<open>
  C8: the JSON document of a structured-data result carries the task identifier, the
  payload, and a boolean flag \<open>schemaUsed\<close>. The flag is computed as
  \<open>!!args.outputSchema || args.llmGenerateSchema\<close>; when neither argument is supplied
  this is \<open>undefined\<close>, and the serialised document has no \<open>schemaUsed\<close> member.
  The call below is made with neither argument.
\<close>

theorem schema_flag_left_out:
  "outputSchema ex_args = None \<and> llmGenerateSchema ex_args = None
   \<and> poll_check ex_args ''t1'' ex_data =
       Return \<lparr>content_text = JSON_stringify (formattedResults ex_args ''t1'' ex_data [(''k'', JNum 1)]),
               isError = False\<rparr>
   \<and> formattedResults ex_args ''t1'' ex_data [(''k'', JNum 1)] =
       JObj [(''requestId'', JStr ''r6''), (''taskId'', JStr ''t1''), (''researchTopic'', JStr ''X''),
             (''status'', JStr ''completed''), (''structuredData'', JObj [(''k'', JNum 1)]),
             (''schemaUsed'', JUndefined)]
   \<and> emitted_doc (JSON_stringify (formattedResults ex_args ''t1'' ex_data [(''k'', JNum 1)])) =
       [(''requestId'', JStr ''r6''), (''taskId'', JStr ''t1''), (''researchTopic'', JStr ''X''),
        (''status'', JStr ''completed''), (''structuredData'', JObj [(''k'', JNum 1)])]
   \<and> map_of (emitted_doc (JSON_stringify (formattedResults ex_args ''t1'' ex_data [(''k'', JNum 1)])))
        ''schemaUsed'' = None"
  by (simp add: ex_args_def ex_data_def poll_check_def formattedResults_def schemaUsed_def)

subsection \<open>C9: the cadence of the poll loop\<close>



subsection \<open>C10: an empty enabled-tools list\<close>

text \<open>
  C10 as stated (at the configuration interface an empty \<open>enabledTools\<close> list is
  treated as an absent one) does not hold for the websets-only entry point: there an
  absent list is replaced by the list of the \<open>ENABLED_TOOLS\<close> environment variable,
  an empty one is not. With the variable naming one tool, the absent list registers for
  that tool only, the empty list for all forty-seven.
\<close>

theorem empty_versus_absent_counterexample:
  "ENABLED_TOOLS ex_env_one_tool = Some ''create_webset_exa''
   \<and> websets_server (ex_config None) ex_env_one_tool =
       Inr ([registerWebsetManagementTools], [''create_webset_exa''])
   \<and> websets_server (ex_config (Some [])) ex_env_one_tool =
       Inr (all_register_calls, allWebsetTools)
   \<and> websets_server (ex_config (Some [])) ex_env_one_tool \<noteq>
       websets_server (ex_config None) ex_env_one_tool
   \<and> length allWebsetTools = 47"
proof -
  have e: "ENABLED_TOOLS ex_env_one_tool = Some ''create_webset_exa''"
    by (simp add: ex_env_one_tool_def)
  have s: "split_on CHR '','' ''create_webset_exa'' = [''create_webset_exa'']"
    by code_simp
  have r: "websets_register (Some [''create_webset_exa'']) =
      ([registerWebsetManagementTools], [''create_webset_exa''])"
    by code_simp
  have a: "websets_server (ex_config None) ex_env_one_tool =
       Inr ([registerWebsetManagementTools], [''create_webset_exa''])"
    by (simp add: websets_server_def ex_config_def ex_env_one_tool_def
        finalConfig_enabledTools_def s r)
  have b: "websets_server (ex_config (Some [])) ex_env_one_tool =
       Inr (all_register_calls, allWebsetTools)"
    by (simp add: ex_config_def websets_server_empty)
  have n: "length allWebsetTools = 47"
    by code_simp
  have "all_register_calls \<noteq> [registerWebsetManagementTools]"
    by (simp add: all_register_calls_def)
  with a b e n show ?thesis
    by simp
qed

text \<open>
  C10, amended: in \<open>shouldRegisterTool\<close> an empty list in force counts as no list,
  since the filter applies to a non-empty list only, and the decision is the
  \<open>enabled\<close> flag of the registry. In the entry point with the search tools an empty
  \<open>enabledTools\<close> is therefore treated as an absent one, and every tool of the
  registry is registered. In the websets-only entry point, given an API key, an empty
  \<open>enabledTools\<close> calls every registration function and records all forty-seven
  tools, whatever the environment; an absent one is treated as the list of
  \<open>ENABLED_TOOLS\<close> when that variable is set and not empty, and as the empty list
  otherwise. Without an API key that entry point throws before registering anything.
\<close>

theorem empty_enabledTools_registration:
  "shouldRegisterTool registry (Some []) toolId = shouldRegisterTool registry None toolId
   \<and> shouldRegisterTool registry (Some []) toolId = (map_of registry toolId = Some True)
   \<and> registeredTools \<lparr>exaApiKey = k, enabledTools = Some [], debug = dbg\<rparr> =
       registeredTools \<lparr>exaApiKey = k, enabledTools = None, debug = dbg\<rparr>
   \<and> registeredTools \<lparr>exaApiKey = k, enabledTools = Some [], debug = dbg\<rparr> =
       map fst availableTools
   \<and> websets_server \<lparr>exaApiKey = k, enabledTools = Some [], debug = dbg\<rparr> env =
       (if truthy_str k \<or> truthy_str (EXA_API_KEY env)
        then Inr (all_register_calls, allWebsetTools)
        else Inl (Error ''EXA_API_KEY is required but not provided in config or environment''))
   \<and> websets_server \<lparr>exaApiKey = k, enabledTools = None, debug = dbg\<rparr> env =
       websets_server
         \<lparr>exaApiKey = k,
          enabledTools = (if truthy_str (ENABLED_TOOLS env)
                          then Some (split_on CHR '','' (the (ENABLED_TOOLS env))) else Some []),
          debug = dbg\<rparr> env
   \<and> list_all (\<lambda>t. List.member allWebsetTools t) (map fst websets_availableTools)"
proof -
  have "registeredTools \<lparr>exaApiKey = k, enabledTools = Some [], debug = dbg\<rparr> =
       registeredTools \<lparr>exaApiKey = k, enabledTools = None, debug = dbg\<rparr>"
    by (simp add: registeredTools_def shouldRegisterTool_empty)
  then show ?thesis
    using shouldRegisterTool_default [of registry toolId] registered_all [of k dbg]
      websets_server_empty [of k dbg env] websets_server_absent [of k dbg env]
      websets_registry_covered
    by (simp add: shouldRegisterTool_empty)
qed

theorem empty_enabledTools_registration_witness:
  "websets_server (ex_config (Some [])) ex_env_plain = Inr (all_register_calls, allWebsetTools)
   \<and> websets_server (ex_config None) ex_env_plain = websets_server (ex_config (Some [])) ex_env_plain
   \<and> websets_server (ex_config None) ex_env_one_tool =
       websets_server (ex_config (Some [''create_webset_exa''])) ex_env_one_tool
   \<and> websets_server \<lparr>exaApiKey = None, enabledTools = Some [], debug = False\<rparr> ex_env_plain =
       Inl (Error ''EXA_API_KEY is required but not provided in config or environment'')
   \<and> registeredTools (ex_config (Some [])) = map fst availableTools"
proof -
  have s: "split_on CHR '','' ''create_webset_exa'' = [''create_webset_exa'']"
    by code_simp
  show ?thesis
    using empty_enabledTools_registration
        [where k = "Some ''key''" and dbg = False and env = ex_env_plain]
      empty_enabledTools_registration
        [where k = "Some ''key''" and dbg = False and env = ex_env_one_tool]
      empty_enabledTools_registration
        [where k = None and dbg = False and env = ex_env_plain]
    by (simp add: ex_config_def ex_env_plain_def ex_env_one_tool_def s)
qed

end
